theory Spec2Isabelle
  imports Main "HOL-Library.Word"
begin

section \<open>The building operations of the document-store registrar\<close>

text \<open>
  A shallow embedding of \<^verbatim>\<open>pkg/registry/building_dynamodb.go\<close>: the four methods
  \<^verbatim>\<open>ListBuildings\<close>, \<^verbatim>\<open>GetBuildingByID\<close>, \<^verbatim>\<open>RegisterBuilding\<close> and
  \<^verbatim>\<open>DeregisterBuilding\<close> of \<^verbatim>\<open>DynamoRegistrar\<close>.

  Go returns \<^verbatim>\<open>(result, err)\<close> pairs in which both components may be nil or non-nil
  independently, so a method's results are a pair of options and not a sum. Pointers to
  buildings are addresses into an explicit heap (nil is \<open>None\<close>), so that what a method
  writes through a pointer, and what it leaves alone, can be stated. The state of the
  table service behind \<^verbatim>\<open>dr.DB\<close> is threaded through every call.
\<close>

subsection \<open>Entity model and heap\<close>

text \<open>
  Modelled from the spec: the struct \<^verbatim>\<open>Building\<close> is declared in another file of
  the package, which is not among the sources read here. Section 3 of the specification
  gives it two string fields, \<^verbatim>\<open>{ID: string, Name: string}\<close>.
\<close>

record Building =
  ID :: string
  Name :: string

text \<open>The zero value of the struct, as \<^verbatim>\<open>new(Building)\<close> allocates it.\<close>

definition zeroBuilding :: Building where
  "zeroBuilding = \<lparr>ID = [], Name = []\<rparr>"

text \<open>
  The heap holds the allocated buildings; an address is an index into it. Go never
  frees an object that is still referenced, so the heap only grows.
\<close>

type_synonym heap = "Building list"

type_synonym ptr = "nat option"

definition new :: "heap \<Rightarrow> nat \<times> heap" where
  "new h = (length h, h @ [zeroBuilding])"

subsection \<open>Errors and contexts\<close>

text \<open>
  \<open>NewError\<close> is \<^verbatim>\<open>apiutils.NewError(code, message)\<close>, \<open>WithStack\<close> is
  \<^verbatim>\<open>errors.WithStack\<close>; the remaining constructors are the errors the two SDK
  packages hand back in this model.
\<close>

datatype error =
    NewError nat string
  | WithStack error
  | RequestCanceled
  | ResourceNotFoundException
  | ValidationException
  | UnmarshalTypeError string

definition StatusBadRequest :: nat where
  "StatusBadRequest = 400"

text \<open>
  The error kind \<^verbatim>\<open>InvalidArgument\<close> of the specification is an API error that
  carries the status \<^verbatim>\<open>http.StatusBadRequest\<close>.
\<close>

fun InvalidArgument :: "error \<Rightarrow> bool" where
  "InvalidArgument (NewError code msg) = (code = StatusBadRequest)"
| "InvalidArgument (WithStack e) = False"
| "InvalidArgument RequestCanceled = False"
| "InvalidArgument ResourceNotFoundException = False"
| "InvalidArgument ValidationException = False"
| "InvalidArgument (UnmarshalTypeError v) = False"

text \<open>A \<^verbatim>\<open>context.Context\<close>, as far as the SDK looks at it: live, or done.\<close>

datatype Context = Background | Canceled | DeadlineExceeded

subsection \<open>Identifier generation\<close>

text \<open>
  Modelled from the spec: \<^verbatim>\<open>getULID\<close> is declared in another file of the package,
  which is not among the sources read here. Section 4.2 asks for fixed-length, sortable
  identifiers; a ULID is 128 bits, and its \<^verbatim>\<open>String()\<close> is the 26 characters of
  its Crockford base 32 encoding (three bits in the first character, five in each of
  the others). Which ULID a call of \<^verbatim>\<open>getULID()\<close> returns depends on the clock
  and on the entropy source, so the value is a parameter of \<open>RegisterBuilding\<close> below.
\<close>

type_synonym ULID = "128 word"

definition Encoding :: string where
  "Encoding = ''0123456789ABCDEFGHJKMNPQRSTVWXYZ''"

definition ULID_String :: "ULID \<Rightarrow> string" where
  "ULID_String u =
     map (\<lambda>i. Encoding ! unat (and (drop_bit (5 * (25 - i)) u) 31)) [0..<26]"

subsection \<open>Attribute values and their codec\<close>

text \<open>
  \<^verbatim>\<open>dynamodb.AttributeValue\<close>, restricted to the scalar kinds: a string, a
  number (kept as its decimal text), a boolean, and the null marker.
  An item is a \<^verbatim>\<open>map[string]*dynamodb.AttributeValue\<close>.
\<close>

datatype AttributeValue = S string | N string | BOOL bool | NULL bool

type_synonym AttributeMap = "string \<rightharpoonup> AttributeValue"

text \<open>
  Modelled from the spec: the constant \<^verbatim>\<open>buildingIDAttributeName\<close> and the field
  tags of \<^verbatim>\<open>Building\<close> are declared in another file of the package, which is not
  among the sources read here. Sections 4.5 and 6 key the collection by the generated
  identifier, so the ID field is stored under the key attribute's name; the name field
  is stored under a second, different name. The two strings stand for whatever the
  declarations say; only that they differ is used.
\<close>

definition buildingIDAttributeName :: string where
  "buildingIDAttributeName = ''id''"

definition buildingNameAttributeName :: string where
  "buildingNameAttributeName = ''name''"

text \<open>
  \<^verbatim>\<open>dynamodbattribute.MarshalMap\<close> on a building. The encoder writes an empty string
  as the null marker and any other string as \<open>S\<close>; it has no failure for a struct of two
  strings, so the error component is always nil.
\<close>

definition encodeString :: "string \<Rightarrow> AttributeValue" where
  "encodeString s = (if s = [] then NULL True else S s)"

definition MarshalMap :: "Building \<Rightarrow> AttributeMap \<times> error option" where
  "MarshalMap b =
     ([buildingIDAttributeName \<mapsto> encodeString (ID b),
       buildingNameAttributeName \<mapsto> encodeString (Name b)], None)"

text \<open>
  The decoder on one attribute bound for a string field, given the field's present value:
  a string or a number sets the field, the null marker sets it to the zero value, a
  boolean is a type error, and an attribute that is not there leaves the field alone.
\<close>

fun decodeString :: "AttributeValue option \<Rightarrow> string \<Rightarrow> error + string" where
  "decodeString None cur = Inr cur"
| "decodeString (Some (S s)) cur = Inr s"
| "decodeString (Some (N n)) cur = Inr n"
| "decodeString (Some (NULL b)) cur = Inr []"
| "decodeString (Some (BOOL b)) cur = Inl (UnmarshalTypeError ''bool'')"

text \<open>
  Decoding an item into a struct sets the fields one attribute at a time and stops at the
  first failure, leaving the fields set so far. (Go visits the attributes of the map in
  no fixed order; the model visits the ID first.)
\<close>

definition decodeStruct :: "AttributeMap \<Rightarrow> Building \<Rightarrow> Building \<times> error option" where
  "decodeStruct m b =
     (case decodeString (m buildingIDAttributeName) (ID b) of
        Inl e \<Rightarrow> (b, Some e)
      | Inr i \<Rightarrow>
          (case decodeString (m buildingNameAttributeName) (Name b) of
             Inl e \<Rightarrow> (b\<lparr>ID := i\<rparr>, Some e)
           | Inr n \<Rightarrow> (b\<lparr>ID := i, Name := n\<rparr>, None)))"

text \<open>\<^verbatim>\<open>dynamodbattribute.UnmarshalMap(m, p)\<close>: decodes into the struct \<open>p\<close> points to.\<close>

definition UnmarshalMap :: "AttributeMap \<Rightarrow> nat \<Rightarrow> heap \<Rightarrow> heap \<times> error option" where
  "UnmarshalMap m p h =
     (case decodeStruct m (h ! p) of (b, err) \<Rightarrow> (h[p := b], err))"

text \<open>
  The decoder's loop over a list, decoding into the slice with backing array \<open>arr\<close>:
  for each index below the capacity it sets the slice's length to \<open>i + 1\<close>, allocates
  a building where the element is a nil pointer, and decodes into it; a failure returns
  at once, with the length where it stands. The result is the length, the backing
  array, the heap and the error.
\<close>

fun decodeList ::
  "AttributeMap list \<Rightarrow> nat \<Rightarrow> nat \<Rightarrow> ptr list \<Rightarrow> heap \<Rightarrow> nat \<times> ptr list \<times> heap \<times> error option"
where
  "decodeList [] i n arr h = (n, arr, h, None)"
| "decodeList (m # ms) i n arr h =
     (if i < length arr
      then (case (case arr ! i of None \<Rightarrow> new h | Some p \<Rightarrow> (p, h)) of
              (p, h1) \<Rightarrow>
                (case UnmarshalMap m p h1 of
                   (h2, Some e) \<Rightarrow> (Suc i, arr[i := Some p], h2, Some e)
                 | (h2, None) \<Rightarrow> decodeList ms (Suc i) (Suc i) (arr[i := Some p]) h2))
      else (n, arr, h, None))"

text \<open>
  \<^verbatim>\<open>dynamodbattribute.UnmarshalListOfMaps(l, &buildings)\<close>. An empty list decodes
  nothing and leaves the slice as it is. Otherwise a slice that is too short is replaced by
  an empty one of the list's capacity before the loop runs. The slice passed in has its
  capacity equal to its length, as \<^verbatim>\<open>make\<close> returns it.
\<close>

definition UnmarshalListOfMaps ::
  "AttributeMap list \<Rightarrow> ptr list \<Rightarrow> heap \<Rightarrow> ptr list \<times> heap \<times> error option"
where
  "UnmarshalListOfMaps l buildings h =
     (if l = [] then (buildings, h, None)
      else (case (if length buildings < length l
                  then decodeList l 0 0 (replicate (length l) None) h
                  else decodeList l 0 (length buildings) buildings h) of
              (n, arr, h', err) \<Rightarrow> (take n arr, h', err)))"

subsection \<open>The table service\<close>

text \<open>
  A table has a hash key attribute and rows; the service holds tables by name. Every
  request the client sends is recorded in \<open>calls\<close>, so that a method that sends none can be
  told from one whose request failed.
\<close>

record Table =
  KeySchema :: string
  rows :: "AttributeMap list"

datatype Call = ScanCall string | GetItemCall string | PutItemCall string | DeleteItemCall string

record DynamoDB =
  tables :: "string \<rightharpoonup> Table"
  calls :: "Call list"

text \<open>
  The outputs of a scan and of a get. \<^verbatim>\<open>Count\<close> is a pointer to an
  \<^verbatim>\<open>int64\<close> that is never negative, read through \<^verbatim>\<open>aws.Int64Value\<close>; the item
  of a get is a nil map when no row has the key.
\<close>

record ScanOutput =
  Count :: "nat option"
  Items :: "AttributeMap list"

record GetItemOutput =
  Item :: "AttributeMap option"

definition Int64Value :: "nat option \<Rightarrow> nat" where
  "Int64Value v = (case v of None \<Rightarrow> 0 | Some n \<Rightarrow> n)"

text \<open>
  What every request has in common: a context that is done cancels the request, and a
  table that does not exist is an error of the service.
\<close>

definition send :: "Context \<Rightarrow> string \<Rightarrow> DynamoDB \<Rightarrow> error + Table" where
  "send ctx name db =
     (if ctx = Background
      then (case tables db name of None \<Rightarrow> Inl ResourceNotFoundException | Some t \<Rightarrow> Inr t)
      else Inl RequestCanceled)"

definition ScanWithContext ::
  "Context \<Rightarrow> string \<Rightarrow> DynamoDB \<Rightarrow> (error + ScanOutput) \<times> DynamoDB"
where
  "ScanWithContext ctx name db =
     (case send ctx name db of
        Inl e \<Rightarrow> (Inl e, db\<lparr>calls := calls db @ [ScanCall name]\<rparr>)
      | Inr t \<Rightarrow>
          (Inr \<lparr>Count = Some (length (rows t)), Items = rows t\<rparr>,
           db\<lparr>calls := calls db @ [ScanCall name]\<rparr>))"

text \<open>
  The three keyed requests find the row by the value of the table's hash key attribute;
  a key or an item without that attribute is refused. A put replaces the row that has the
  same key value. Any string is taken as a key value: what else the service checks in a
  request is outside this model. A read sees the last write, and a scan returns all rows
  in one page.
\<close>

definition GetItemWithContext ::
  "Context \<Rightarrow> string \<Rightarrow> AttributeMap \<Rightarrow> DynamoDB \<Rightarrow> (error + GetItemOutput) \<times> DynamoDB"
where
  "GetItemWithContext ctx name key db =
     (case send ctx name db of
        Inl e \<Rightarrow> (Inl e, db\<lparr>calls := calls db @ [GetItemCall name]\<rparr>)
      | Inr t \<Rightarrow>
          (case key (KeySchema t) of
             None \<Rightarrow> (Inl ValidationException, db\<lparr>calls := calls db @ [GetItemCall name]\<rparr>)
           | Some v \<Rightarrow>
               (Inr \<lparr>Item = find (\<lambda>r. r (KeySchema t) = Some v) (rows t)\<rparr>,
                db\<lparr>calls := calls db @ [GetItemCall name]\<rparr>)))"

definition PutItemWithContext ::
  "Context \<Rightarrow> string \<Rightarrow> AttributeMap \<Rightarrow> DynamoDB \<Rightarrow> (error + unit) \<times> DynamoDB"
where
  "PutItemWithContext ctx name item db =
     (case send ctx name db of
        Inl e \<Rightarrow> (Inl e, db\<lparr>calls := calls db @ [PutItemCall name]\<rparr>)
      | Inr t \<Rightarrow>
          (case item (KeySchema t) of
             None \<Rightarrow> (Inl ValidationException, db\<lparr>calls := calls db @ [PutItemCall name]\<rparr>)
           | Some v \<Rightarrow>
               (Inr (),
                db\<lparr>tables := (tables db)(name \<mapsto>
                        t\<lparr>rows := filter (\<lambda>r. r (KeySchema t) \<noteq> Some v) (rows t) @ [item]\<rparr>),
                   calls := calls db @ [PutItemCall name]\<rparr>)))"

definition DeleteItemWithContext ::
  "Context \<Rightarrow> string \<Rightarrow> AttributeMap \<Rightarrow> DynamoDB \<Rightarrow> (error + unit) \<times> DynamoDB"
where
  "DeleteItemWithContext ctx name key db =
     (case send ctx name db of
        Inl e \<Rightarrow> (Inl e, db\<lparr>calls := calls db @ [DeleteItemCall name]\<rparr>)
      | Inr t \<Rightarrow>
          (case key (KeySchema t) of
             None \<Rightarrow> (Inl ValidationException, db\<lparr>calls := calls db @ [DeleteItemCall name]\<rparr>)
           | Some v \<Rightarrow>
               (Inr (),
                db\<lparr>tables := (tables db)(name \<mapsto>
                        t\<lparr>rows := filter (\<lambda>r. r (KeySchema t) \<noteq> Some v) (rows t)\<rparr>),
                   calls := calls db @ [DeleteItemCall name]\<rparr>)))"

subsection \<open>The registrar\<close>

record Config =
  BuildingTableName :: string

record DynamoRegistrar =
  DB :: DynamoDB
  Config :: Config

text \<open>\<^verbatim>\<open>make([]*Building, n)\<close>: a slice of \<open>n\<close> nil pointers.\<close>

definition make :: "nat \<Rightarrow> ptr list" where
  "make n = replicate n None"

text \<open>
  \<^verbatim>\<open>ListBuildings\<close>. The result slice is \<open>None\<close> when it is nil. The named result
  \<^verbatim>\<open>buildings\<close> is returned as it stands on every path.
\<close>

definition ListBuildings ::
  "DynamoRegistrar \<Rightarrow> Context \<Rightarrow> heap
     \<Rightarrow> (ptr list option \<times> error option) \<times> DynamoRegistrar \<times> heap"
where
  "ListBuildings dr ctx h =
     (case ScanWithContext ctx (BuildingTableName (Config dr)) (DB dr) of
        (Inl err, db') \<Rightarrow> ((None, Some (WithStack err)), dr\<lparr>DB := db'\<rparr>, h)
      | (Inr out, db') \<Rightarrow>
          (case UnmarshalListOfMaps (Items out) (make (Int64Value (Count out))) h of
             (buildings, h', Some err) \<Rightarrow>
               ((Some buildings, Some (WithStack err)), dr\<lparr>DB := db'\<rparr>, h')
           | (buildings, h', None) \<Rightarrow>
               ((Some buildings, None), dr\<lparr>DB := db'\<rparr>, h')))"

text \<open>\<^verbatim>\<open>GetBuildingByID\<close>.\<close>

definition GetBuildingByID ::
  "DynamoRegistrar \<Rightarrow> Context \<Rightarrow> string \<Rightarrow> heap
     \<Rightarrow> (ptr \<times> error option) \<times> DynamoRegistrar \<times> heap"
where
  "GetBuildingByID dr ctx buildingID h =
     (case GetItemWithContext ctx (BuildingTableName (Config dr))
             [buildingIDAttributeName \<mapsto> S buildingID] (DB dr) of
        (Inl err, db') \<Rightarrow> ((None, Some (WithStack err)), dr\<lparr>DB := db'\<rparr>, h)
      | (Inr out, db') \<Rightarrow>
          (case Item out of
             None \<Rightarrow> ((None, None), dr\<lparr>DB := db'\<rparr>, h)
           | Some item \<Rightarrow>
               (let (building, h1) = new h
                in case UnmarshalMap item building h1 of
                     (h2, Some err) \<Rightarrow> ((None, Some (WithStack err)), dr\<lparr>DB := db'\<rparr>, h2)
                   | (h2, None) \<Rightarrow> ((Some building, None), dr\<lparr>DB := db'\<rparr>, h2))))"

text \<open>
  \<^verbatim>\<open>RegisterBuilding\<close>. The argument \<open>ulid\<close> is the value the call of
  \<^verbatim>\<open>getULID()\<close> returns; \<open>inp\<close> is the pointer \<^verbatim>\<open>in\<close>.
\<close>

definition RegisterBuilding ::
  "DynamoRegistrar \<Rightarrow> Context \<Rightarrow> ULID \<Rightarrow> ptr \<Rightarrow> heap
     \<Rightarrow> (ptr \<times> error option) \<times> DynamoRegistrar \<times> heap"
where
  "RegisterBuilding dr ctx ulid inp h =
     (case inp of
        None \<Rightarrow> ((None, Some (NewError StatusBadRequest ''building name is required'')), dr, h)
      | Some a \<Rightarrow>
          if Name (h ! a) = []
          then ((None, Some (NewError StatusBadRequest ''building name is required'')), dr, h)
          else (let (building, h1) = new h;
                    h2 = h1[building := h1 ! a];
                    h3 = h2[building := (h2 ! building)\<lparr>ID := ULID_String ulid\<rparr>]
                in case MarshalMap (h3 ! building) of
                     (item, Some err) \<Rightarrow> ((None, Some (WithStack err)), dr, h3)
                   | (item, None) \<Rightarrow>
                       (case PutItemWithContext ctx (BuildingTableName (Config dr)) item (DB dr) of
                          (Inl err, db') \<Rightarrow> ((None, Some (WithStack err)), dr\<lparr>DB := db'\<rparr>, h3)
                        | (Inr u, db') \<Rightarrow> ((Some building, None), dr\<lparr>DB := db'\<rparr>, h3))))"

text \<open>\<^verbatim>\<open>DeregisterBuilding\<close>.\<close>

definition DeregisterBuilding ::
  "DynamoRegistrar \<Rightarrow> Context \<Rightarrow> string \<Rightarrow> error option \<times> DynamoRegistrar"
where
  "DeregisterBuilding dr ctx buildingID =
     (case DeleteItemWithContext ctx (BuildingTableName (Config dr))
             [buildingIDAttributeName \<mapsto> S buildingID] (DB dr) of
        (Inl err, db') \<Rightarrow> (Some (WithStack err), dr\<lparr>DB := db'\<rparr>)
      | (Inr u, db') \<Rightarrow> (None, dr\<lparr>DB := db'\<rparr>))"

subsection \<open>Example states\<close>

text \<open>
  A registrar whose table is empty, a heap with the building of the integration test
  (\<^verbatim>\<open>ID: "something"\<close>), and a registrar whose table holds a row that does not
  decode: its name attribute is a boolean.
\<close>

definition exampleTable :: Table where
  "exampleTable = \<lparr>KeySchema = ''id'', rows = []\<rparr>"

definition exampleRegistrar :: DynamoRegistrar where
  "exampleRegistrar =
     \<lparr>DB = \<lparr>tables = [''buildings'' \<mapsto> exampleTable], calls = []\<rparr>,
      Config = \<lparr>BuildingTableName = ''buildings''\<rparr>\<rparr>"

definition exampleHeap :: heap where
  "exampleHeap = [\<lparr>ID = ''something'', Name = ''Tower''\<rparr>]"


definition brokenRowRegistrar :: DynamoRegistrar where
  "brokenRowRegistrar =
     \<lparr>DB = \<lparr>tables = [''buildings'' \<mapsto>
               \<lparr>KeySchema = ''id'',
                rows = [[''id'' \<mapsto> S ''A'', ''name'' \<mapsto> S ''Tower''],
                        [''id'' \<mapsto> S ''B'', ''name'' \<mapsto> BOOL True],
                        [''id'' \<mapsto> S ''C'', ''name'' \<mapsto> S ''Hut'']]\<rparr>],
             calls = []\<rparr>,
      Config = \<lparr>BuildingTableName = ''buildings''\<rparr>\<rparr>"

section \<open>Properties\<close>

subsection \<open>Identifiers, the codec and the table service\<close>

lemma length_ULID_String: "length (ULID_String u) = 26"
  by (simp add: ULID_String_def)

lemma ULID_String_nonempty: "ULID_String u \<noteq> []"
  using length_ULID_String [of u] by auto

lemma attr_names_distinct: "buildingIDAttributeName \<noteq> buildingNameAttributeName"
  by (simp add: buildingIDAttributeName_def buildingNameAttributeName_def)

lemma MarshalMap_key:
  "ID b \<noteq> [] \<Longrightarrow> fst (MarshalMap b) buildingIDAttributeName = Some (S (ID b))"
  by (simp add: MarshalMap_def encodeString_def attr_names_distinct)

text \<open>Decoding what the encoder wrote gives the building back, whatever the target held.\<close>

lemma decodeStruct_MarshalMap:
  "ID b \<noteq> [] \<Longrightarrow> Name b \<noteq> [] \<Longrightarrow> decodeStruct (fst (MarshalMap b)) c = (b, None)"
  by (simp add: decodeStruct_def MarshalMap_def encodeString_def attr_names_distinct)

lemma find_filter_absent:
  "find (\<lambda>r. r k = Some v) (filter (\<lambda>r. r k \<noteq> Some v) rs) = None"
  by (induction rs) auto

lemma find_append_absent: "find P xs = None \<Longrightarrow> find P (xs @ ys) = find P ys"
  by (induction xs) (auto split: if_splits)

lemma find_after_put:
  "item k = Some v \<Longrightarrow>
   find (\<lambda>r. r k = Some v) (filter (\<lambda>r. r k \<noteq> Some v) rs @ [item]) = Some item"
  by (simp add: find_append_absent find_filter_absent)

lemma find_absent:
  "\<forall>r \<in> set rs. r k \<noteq> Some v \<Longrightarrow> find (\<lambda>r. r k = Some v) rs = None"
  by (induction rs) auto

lemma send_Background: "tables db name = Some t \<Longrightarrow> send Background name db = Inr t"
  by (simp add: send_def)

lemma GetItem_found:
  assumes "tables db name = Some t"
    and "find (\<lambda>r. r (KeySchema t) = Some v) (rows t) = Some item"
    and "key (KeySchema t) = Some v"
  shows "GetItemWithContext Background name key db =
           (Inr \<lparr>Item = Some item\<rparr>, db\<lparr>calls := calls db @ [GetItemCall name]\<rparr>)"
  using assms by (simp add: GetItemWithContext_def send_Background)

lemma GetItem_absent:
  assumes "tables db name = Some t"
    and "find (\<lambda>r. r (KeySchema t) = Some v) (rows t) = None"
    and "key (KeySchema t) = Some v"
  shows "GetItemWithContext Background name key db =
           (Inr \<lparr>Item = None\<rparr>, db\<lparr>calls := calls db @ [GetItemCall name]\<rparr>)"
  using assms by (simp add: GetItemWithContext_def send_Background)

subsection \<open>What each method does when the table service answers\<close>

text \<open>
  With a live context and a table keyed by the ID attribute, registering a building
  that has a name allocates the copy at the end of the heap, puts its item and returns
  the copy's address.
\<close>

lemma RegisterBuilding_success:
  assumes "a < length h" and "Name (h ! a) \<noteq> []"
    and "tables (DB dr) (BuildingTableName (Config dr)) = Some t"
    and "KeySchema t = buildingIDAttributeName"
  shows "RegisterBuilding dr Background ulid (Some a) h =
           ((Some (length h), None),
            dr\<lparr>DB := (DB dr)
                 \<lparr>tables := (tables (DB dr))(BuildingTableName (Config dr) \<mapsto>
                     t\<lparr>rows :=
                          filter (\<lambda>r. r buildingIDAttributeName \<noteq> Some (S (ULID_String ulid)))
                            (rows t)
                          @ [fst (MarshalMap ((h ! a)\<lparr>ID := ULID_String ulid\<rparr>))]\<rparr>),
                  calls := calls (DB dr) @ [PutItemCall (BuildingTableName (Config dr))]\<rparr>\<rparr>,
            h @ [(h ! a)\<lparr>ID := ULID_String ulid\<rparr>])"
  using assms
  by (simp add: RegisterBuilding_def new_def PutItemWithContext_def send_Background
      MarshalMap_def encodeString_def attr_names_distinct ULID_String_nonempty nth_append)

lemma GetBuildingByID_found:
  assumes "tables (DB dr) (BuildingTableName (Config dr)) = Some t"
    and "KeySchema t = buildingIDAttributeName"
    and "find (\<lambda>r. r buildingIDAttributeName = Some (S i)) (rows t) = Some (fst (MarshalMap b))"
    and "ID b \<noteq> []" and "Name b \<noteq> []"
  shows "GetBuildingByID dr Background i h =
           ((Some (length h), None),
            dr\<lparr>DB := (DB dr)
                 \<lparr>calls := calls (DB dr) @ [GetItemCall (BuildingTableName (Config dr))]\<rparr>\<rparr>,
            h @ [b])"
  using assms
  by (simp add: GetBuildingByID_def GetItem_found [where v = "S i"] new_def UnmarshalMap_def
      decodeStruct_MarshalMap)

lemma GetBuildingByID_absent:
  assumes "tables (DB dr) (BuildingTableName (Config dr)) = Some t"
    and "KeySchema t = buildingIDAttributeName"
    and "find (\<lambda>r. r buildingIDAttributeName = Some (S i)) (rows t) = None"
  shows "GetBuildingByID dr Background i h =
           ((None, None),
            dr\<lparr>DB := (DB dr)
                 \<lparr>calls := calls (DB dr) @ [GetItemCall (BuildingTableName (Config dr))]\<rparr>\<rparr>,
            h)"
  using assms
  by (simp add: GetBuildingByID_def GetItem_absent [where v = "S i"])

lemma DeregisterBuilding_success:
  assumes "tables (DB dr) (BuildingTableName (Config dr)) = Some t"
    and "KeySchema t = buildingIDAttributeName"
  shows "DeregisterBuilding dr Background i =
           (None,
            dr\<lparr>DB := (DB dr)
                 \<lparr>tables := (tables (DB dr))(BuildingTableName (Config dr) \<mapsto>
                     t\<lparr>rows := filter (\<lambda>r. r buildingIDAttributeName \<noteq> Some (S i)) (rows t)\<rparr>),
                  calls := calls (DB dr) @ [DeleteItemCall (BuildingTableName (Config dr))]\<rparr>\<rparr>)"
  using assms
  by (simp add: DeregisterBuilding_def DeleteItemWithContext_def send_Background)

text \<open>
  The only error \<^verbatim>\<open>DeregisterBuilding\<close> returns is the wrapped error of the delete
  request; whether a row has the key plays no part in it.
\<close>

lemma DeregisterBuilding_error_iff:
  "fst (DeregisterBuilding dr ctx i) = None \<longleftrightarrow>
     ctx = Background \<and>
     (\<exists>t. tables (DB dr) (BuildingTableName (Config dr)) = Some t \<and>
          KeySchema t = buildingIDAttributeName)"
  by (auto simp add: DeregisterBuilding_def DeleteItemWithContext_def send_def
      split: option.splits if_splits)

text \<open>Once the scan has answered, the slice \<^verbatim>\<open>ListBuildings\<close> returns is never nil.\<close>

lemma ListBuildings_slice_not_nil:
  "tables (DB dr) (BuildingTableName (Config dr)) = Some t \<Longrightarrow>
   fst (fst (ListBuildings dr Background h)) \<noteq> None"
  by (simp add: ListBuildings_def ScanWithContext_def send_Background
      split: prod.splits option.splits)

subsection \<open>Rows that do not decode\<close>

text \<open>
  Decoding into a newly allocated building only depends on the row. The loop of the
  decoder over a slice of nil pointers fails exactly when one of the rows does, and when
  it fails the slice's length is at least one: the element it was working on is counted.
\<close>

lemma UnmarshalMap_new:
  "UnmarshalMap m (length h) (h @ [zeroBuilding]) =
     (h @ [fst (decodeStruct m zeroBuilding)], snd (decodeStruct m zeroBuilding))"
  by (simp add: UnmarshalMap_def split: prod.splits)

lemma decodeList_error_iff:
  assumes "i + length l \<le> length arr"
    and "\<forall>j. i \<le> j \<and> j < length arr \<longrightarrow> arr ! j = None"
  shows "snd (snd (snd (decodeList l i n arr h))) \<noteq> None
           \<longleftrightarrow> (\<exists>m \<in> set l. snd (decodeStruct m zeroBuilding) \<noteq> None)"
  using assms
proof (induction l arbitrary: i n arr h)
  case Nil
  then show ?case by simp
next
  case (Cons m ms)
  have i: "i < length arr" and none: "arr ! i = None"
    using Cons.prems by auto
  show ?case
  proof (cases "snd (decodeStruct m zeroBuilding)")
    case None
    have "snd (snd (snd (decodeList ms (Suc i) (Suc i) (arr[i := Some (length h)])
              (h @ [fst (decodeStruct m zeroBuilding)])))) \<noteq> None
           \<longleftrightarrow> (\<exists>m \<in> set ms. snd (decodeStruct m zeroBuilding) \<noteq> None)"
      using Cons.prems by (intro Cons.IH) auto
    then show ?thesis
      using i none None by (simp add: new_def UnmarshalMap_new)
  next
    case (Some e)
    then show ?thesis
      using i none by (simp add: new_def UnmarshalMap_new)
  qed
qed

lemma length_decodeList_arr: "length (fst (snd (decodeList l i n arr h))) = length arr"
  by (induction l i n arr h rule: decodeList.induct)
     (auto simp add: Let_def split: prod.splits option.splits)

lemma decodeList_error_length:
  "snd (snd (snd (decodeList l i n arr h))) \<noteq> None \<Longrightarrow>
   0 < fst (decodeList l i n arr h) \<and> fst (decodeList l i n arr h) \<le> length arr"
  by (induction l i n arr h rule: decodeList.induct)
     (auto simp add: Let_def split: prod.splits option.splits if_splits)

text \<open>
  So \<^verbatim>\<open>ListBuildings\<close> returns an error exactly when a row of the table does not
  decode (the request being answered), and then the slice it returns is not empty.
\<close>

lemma ListBuildings_error_iff:
  assumes "tables (DB dr) (BuildingTableName (Config dr)) = Some t"
  shows "snd (fst (ListBuildings dr Background h)) \<noteq> None
           \<longleftrightarrow> (\<exists>m \<in> set (rows t). snd (decodeStruct m zeroBuilding) \<noteq> None)"
proof (cases "rows t = []")
  case True
  then show ?thesis
    using assms
    by (simp add: ListBuildings_def ScanWithContext_def send_Background UnmarshalListOfMaps_def)
next
  case False
  have "snd (snd (snd (decodeList (rows t) 0 (length (rows t))
                         (replicate (length (rows t)) None) h))) \<noteq> None
           \<longleftrightarrow> (\<exists>m \<in> set (rows t). snd (decodeStruct m zeroBuilding) \<noteq> None)"
    by (rule decodeList_error_iff) auto
  then show ?thesis
    using assms False
    by (auto simp add: ListBuildings_def ScanWithContext_def send_Background
        UnmarshalListOfMaps_def make_def Int64Value_def split: prod.splits option.splits)
qed

lemma ListBuildings_error_slice:
  assumes "tables (DB dr) (BuildingTableName (Config dr)) = Some t"
    and "snd (fst (ListBuildings dr Background h)) \<noteq> None"
  shows "\<exists>bs. fst (fst (ListBuildings dr Background h)) = Some bs \<and> bs \<noteq> []"
proof -
  let ?l = "rows t"
  let ?r = "decodeList ?l 0 (length ?l) (replicate (length ?l) None) h"
  have ne: "?l \<noteq> []"
    using assms
    by (auto simp add: ListBuildings_def ScanWithContext_def send_Background
        UnmarshalListOfMaps_def)
  have err: "snd (snd (snd ?r)) \<noteq> None"
    using assms ne
    by (auto simp add: ListBuildings_def ScanWithContext_def send_Background
        UnmarshalListOfMaps_def make_def Int64Value_def split: prod.splits option.splits)
  have "0 < fst ?r \<and> fst ?r \<le> length (replicate (length ?l) (None :: ptr))"
    using err by (rule decodeList_error_length)
  moreover have "length (fst (snd ?r)) = length ?l"
    by (simp add: length_decodeList_arr)
  ultimately have "length (take (fst ?r) (fst (snd ?r))) \<noteq> 0"
    using ne by simp
  then have "take (fst ?r) (fst (snd ?r)) \<noteq> []"
    by (simp only: length_0_conv not_False_eq_True)
  then show ?thesis
    using assms ne
    by (auto simp add: ListBuildings_def ScanWithContext_def send_Background
        UnmarshalListOfMaps_def make_def Int64Value_def split: prod.splits option.splits)
qed

subsection \<open>Claims about the contract\<close>

text \<open>
  Claim C1 (round trip). For a building with a non-empty name, a live context and a
  table keyed by the ID attribute, \<^verbatim>\<open>RegisterBuilding\<close> succeeds, and
  \<^verbatim>\<open>GetBuildingByID\<close> with the ID of the building it returned succeeds with a building
  that is equal to the registered one, field by field; the registered one is still what
  it was.
\<close>

theorem RegisterBuilding_GetBuildingByID_roundtrip:
  assumes "a < length h" and "Name (h ! a) \<noteq> []"
    and "tables (DB dr) (BuildingTableName (Config dr)) = Some t"
    and "KeySchema t = buildingIDAttributeName"
  shows "\<exists>p dr1 h1 q dr2 h2.
           RegisterBuilding dr Background ulid (Some a) h = ((Some p, None), dr1, h1) \<and>
           GetBuildingByID dr1 Background (ID (h1 ! p)) h1 = ((Some q, None), dr2, h2) \<and>
           h2 ! q = h1 ! p \<and> h2 ! p = h1 ! p"
proof -
  let ?b = "(h ! a)\<lparr>ID := ULID_String ulid\<rparr>"
  let ?n = "BuildingTableName (Config dr)"
  let ?t1 = "t\<lparr>rows :=
                 filter (\<lambda>r. r buildingIDAttributeName \<noteq> Some (S (ULID_String ulid))) (rows t)
                 @ [fst (MarshalMap ?b)]\<rparr>"
  let ?dr1 = "dr\<lparr>DB := (DB dr)\<lparr>tables := (tables (DB dr))(?n \<mapsto> ?t1),
                              calls := calls (DB dr) @ [PutItemCall ?n]\<rparr>\<rparr>"
  let ?h1 = "h @ [?b]"
  have reg: "RegisterBuilding dr Background ulid (Some a) h = ((Some (length h), None), ?dr1, ?h1)"
    using assms by (rule RegisterBuilding_success)
  have key: "fst (MarshalMap ?b) buildingIDAttributeName = Some (S (ULID_String ulid))"
    using MarshalMap_key [of ?b] by (simp add: ULID_String_nonempty)
  have found:
    "find (\<lambda>r. r buildingIDAttributeName = Some (S (ULID_String ulid))) (rows ?t1)
       = Some (fst (MarshalMap ?b))"
    using key by (simp add: find_after_put)
  have get: "GetBuildingByID ?dr1 Background (ULID_String ulid) ?h1 =
               ((Some (length ?h1), None),
                ?dr1\<lparr>DB := (DB ?dr1)\<lparr>calls := calls (DB ?dr1) @ [GetItemCall ?n]\<rparr>\<rparr>,
                ?h1 @ [?b])"
    using GetBuildingByID_found [where dr = ?dr1 and t = ?t1 and b = ?b
        and i = "ULID_String ulid" and h = ?h1] assms found
    by (simp add: ULID_String_nonempty)
  show ?thesis
    using reg get by (simp add: nth_append)
qed

theorem RegisterBuilding_GetBuildingByID_roundtrip_witness:
  "\<exists>p dr1 h1 q dr2 h2.
     RegisterBuilding exampleRegistrar Background 5 (Some 0) exampleHeap
       = ((Some p, None), dr1, h1) \<and>
     GetBuildingByID dr1 Background (ID (h1 ! p)) h1 = ((Some q, None), dr2, h2) \<and>
     h2 ! q = h1 ! p \<and> h2 ! p = h1 ! p"
  using RegisterBuilding_GetBuildingByID_roundtrip
    [of 0 exampleHeap exampleRegistrar exampleTable 5]
  by (simp add: exampleRegistrar_def exampleHeap_def exampleTable_def buildingIDAttributeName_def)

text \<open>
  Claim C10. Neither \<^verbatim>\<open>RegisterBuilding\<close> nor \<^verbatim>\<open>GetBuildingByID\<close> ever returns
  a building together with an error: on every path one of the two results is nil,
  whatever the input, the context and the state of the service.
\<close>

theorem building_or_error_nil:
  "(fst (fst (RegisterBuilding dr ctx ulid inp h)) = None \<or>
    snd (fst (RegisterBuilding dr ctx ulid inp h)) = None) \<and>
   (fst (fst (GetBuildingByID dr' ctx' buildingID h')) = None \<or>
    snd (fst (GetBuildingByID dr' ctx' buildingID h')) = None)"
  by (simp add: RegisterBuilding_def GetBuildingByID_def Let_def
      split: option.splits prod.splits sum.splits)

theorem building_or_error_nil_witness:
  "(fst (fst (RegisterBuilding exampleRegistrar Canceled 5 (Some 0) exampleHeap)) = None \<or>
    snd (fst (RegisterBuilding exampleRegistrar Canceled 5 (Some 0) exampleHeap)) = None) \<and>
   (fst (fst (GetBuildingByID brokenRowRegistrar Background ''B'' [])) = None \<or>
    snd (fst (GetBuildingByID brokenRowRegistrar Background ''B'' [])) = None)"
  by (rule building_or_error_nil)

text \<open>
  Claim C2. For an ID whose key no row of the table has, \<^verbatim>\<open>GetBuildingByID\<close>
  returns a nil building and a nil error (with a live context and a table keyed by the
  ID attribute, that is, when the request itself is answered).
\<close>

theorem GetBuildingByID_unregistered:
  assumes "tables (DB dr) (BuildingTableName (Config dr)) = Some t"
    and "KeySchema t = buildingIDAttributeName"
    and "\<forall>r \<in> set (rows t). r buildingIDAttributeName \<noteq> Some (S buildingID)"
  shows "fst (GetBuildingByID dr Background buildingID h) = (None, None)"
  using assms by (simp add: GetBuildingByID_absent find_absent)

theorem GetBuildingByID_unregistered_witness:
  "fst (GetBuildingByID brokenRowRegistrar Background ''nonexistent'' []) = (None, None)"
  using GetBuildingByID_unregistered
    [of brokenRowRegistrar
        "\<lparr>KeySchema = ''id'',
          rows = [[''id'' \<mapsto> S ''A'', ''name'' \<mapsto> S ''Tower''],
                  [''id'' \<mapsto> S ''B'', ''name'' \<mapsto> BOOL True],
                  [''id'' \<mapsto> S ''C'', ''name'' \<mapsto> S ''Hut'']]\<rparr>"
        "''nonexistent''" "[]"]
  by (simp add: brokenRowRegistrar_def buildingIDAttributeName_def)



text \<open>
  Claim C4. \<^verbatim>\<open>RegisterBuilding\<close> returns an \<^verbatim>\<open>InvalidArgument\<close> error exactly when
  its input is nil or has an empty name; then the building it returns is nil, no request
  is sent to the table service, and registrar and heap are what they were.
\<close>

theorem RegisterBuilding_InvalidArgument_iff:
  assumes "RegisterBuilding dr ctx ulid inp h = ((building, err), dr', h')"
  shows "((\<exists>e. err = Some e \<and> InvalidArgument e)
            \<longleftrightarrow> (inp = None \<or> (\<exists>a. inp = Some a \<and> Name (h ! a) = []))) \<and>
         ((\<exists>e. err = Some e \<and> InvalidArgument e)
            \<longrightarrow> building = None \<and> calls (DB dr') = calls (DB dr) \<and> dr' = dr \<and> h' = h)"
  using assms
  by (auto simp add: RegisterBuilding_def StatusBadRequest_def Let_def
      split: if_splits prod.splits option.splits sum.splits)

theorem RegisterBuilding_InvalidArgument_iff_witness:
  "(\<exists>e. snd (fst (RegisterBuilding exampleRegistrar Background 5 None exampleHeap)) = Some e \<and>
        InvalidArgument e) \<and>
   fst (fst (RegisterBuilding exampleRegistrar Background 5 None exampleHeap)) = None \<and>
   snd (RegisterBuilding exampleRegistrar Background 5 None exampleHeap)
     = (exampleRegistrar, exampleHeap)"
  using RegisterBuilding_InvalidArgument_iff
    [of exampleRegistrar Background 5 None exampleHeap
        "fst (fst (RegisterBuilding exampleRegistrar Background 5 None exampleHeap))"
        "snd (fst (RegisterBuilding exampleRegistrar Background 5 None exampleHeap))"
        "fst (snd (RegisterBuilding exampleRegistrar Background 5 None exampleHeap))"
        "snd (snd (RegisterBuilding exampleRegistrar Background 5 None exampleHeap))"]
  by (simp add: prod_eq_iff)

text \<open>
  Claim C5. \<^verbatim>\<open>DeregisterBuilding\<close> returns no error for any ID, whether a row of
  the table has it as its key or not (with a live context and a table keyed by the ID
  attribute, that is, when the request itself is answered).
\<close>

theorem DeregisterBuilding_no_error:
  assumes "tables (DB dr) (BuildingTableName (Config dr)) = Some t"
    and "KeySchema t = buildingIDAttributeName"
  shows "fst (DeregisterBuilding dr Background buildingID) = None"
  using assms by (simp add: DeregisterBuilding_success)

theorem DeregisterBuilding_no_error_witness:
  "fst (DeregisterBuilding exampleRegistrar Background ''nonexistent'') = None"
  using DeregisterBuilding_no_error [of exampleRegistrar exampleTable "''nonexistent''"]
  by (simp add: exampleRegistrar_def exampleTable_def buildingIDAttributeName_def)

text \<open>
  Claim C6. After a building has been registered and then deregistered by the ID it was
  given, \<^verbatim>\<open>GetBuildingByID\<close> with that ID returns a nil building and a nil error.
\<close>

theorem GetBuildingByID_after_DeregisterBuilding:
  assumes "a < length h" and "Name (h ! a) \<noteq> []"
    and "tables (DB dr) (BuildingTableName (Config dr)) = Some t"
    and "KeySchema t = buildingIDAttributeName"
  shows "\<exists>p dr1 h1 dr2 dr3.
           RegisterBuilding dr Background ulid (Some a) h = ((Some p, None), dr1, h1) \<and>
           DeregisterBuilding dr1 Background (ID (h1 ! p)) = (None, dr2) \<and>
           GetBuildingByID dr2 Background (ID (h1 ! p)) h1 = ((None, None), dr3, h1)"
proof -
  let ?b = "(h ! a)\<lparr>ID := ULID_String ulid\<rparr>"
  let ?n = "BuildingTableName (Config dr)"
  let ?t1 = "t\<lparr>rows :=
                 filter (\<lambda>r. r buildingIDAttributeName \<noteq> Some (S (ULID_String ulid))) (rows t)
                 @ [fst (MarshalMap ?b)]\<rparr>"
  let ?dr1 = "dr\<lparr>DB := (DB dr)\<lparr>tables := (tables (DB dr))(?n \<mapsto> ?t1),
                              calls := calls (DB dr) @ [PutItemCall ?n]\<rparr>\<rparr>"
  let ?t2 = "?t1\<lparr>rows :=
                   filter (\<lambda>r. r buildingIDAttributeName \<noteq> Some (S (ULID_String ulid)))
                     (rows ?t1)\<rparr>"
  let ?dr2 = "?dr1\<lparr>DB := (DB ?dr1)\<lparr>tables := (tables (DB ?dr1))(?n \<mapsto> ?t2),
                                 calls := calls (DB ?dr1) @ [DeleteItemCall ?n]\<rparr>\<rparr>"
  let ?h1 = "h @ [?b]"
  have reg: "RegisterBuilding dr Background ulid (Some a) h = ((Some (length h), None), ?dr1, ?h1)"
    using assms by (rule RegisterBuilding_success)
  have del: "DeregisterBuilding ?dr1 Background (ULID_String ulid) = (None, ?dr2)"
    using assms by (simp add: DeregisterBuilding_success [where t = ?t1])
  have absent:
    "find (\<lambda>r. r buildingIDAttributeName = Some (S (ULID_String ulid))) (rows ?t2) = None"
    by (simp del: filter_append add: find_filter_absent)
  have get: "GetBuildingByID ?dr2 Background (ULID_String ulid) ?h1 =
               ((None, None),
                ?dr2\<lparr>DB := (DB ?dr2)\<lparr>calls := calls (DB ?dr2) @ [GetItemCall ?n]\<rparr>\<rparr>,
                ?h1)"
    using GetBuildingByID_absent [where dr = ?dr2 and t = ?t2 and i = "ULID_String ulid"
        and h = ?h1] assms absent
    by simp
  show ?thesis
    using reg del get by simp
qed

theorem GetBuildingByID_after_DeregisterBuilding_witness:
  "\<exists>p dr1 h1 dr2 dr3.
     RegisterBuilding exampleRegistrar Background 5 (Some 0) exampleHeap
       = ((Some p, None), dr1, h1) \<and>
     DeregisterBuilding dr1 Background (ID (h1 ! p)) = (None, dr2) \<and>
     GetBuildingByID dr2 Background (ID (h1 ! p)) h1 = ((None, None), dr3, h1)"
  using GetBuildingByID_after_DeregisterBuilding
    [of 0 exampleHeap exampleRegistrar exampleTable 5]
  by (simp add: exampleRegistrar_def exampleHeap_def exampleTable_def buildingIDAttributeName_def)

text \<open>
  Claim C7. When the table has no rows, \<^verbatim>\<open>ListBuildings\<close> returns an empty slice
  that is not nil, and a nil error.
\<close>

theorem ListBuildings_empty:
  assumes "tables (DB dr) (BuildingTableName (Config dr)) = Some t"
    and "rows t = []"
  shows "fst (ListBuildings dr Background h) = (Some [], None)"
  using assms
  by (simp add: ListBuildings_def ScanWithContext_def send_Background UnmarshalListOfMaps_def
      make_def Int64Value_def)

theorem ListBuildings_empty_witness:
  "fst (ListBuildings exampleRegistrar Background exampleHeap) = (Some [], None)"
  using ListBuildings_empty [of exampleRegistrar exampleTable exampleHeap]
  by (simp add: exampleRegistrar_def exampleTable_def)

text \<open>
  Claim C8. A row that does not decode makes \<^verbatim>\<open>ListBuildings\<close> return an error,
  but not without results: the slice it returns with the error holds the buildings decoded
  before the failure and the one the decoder was working on. Here the second of three
  rows has a boolean for a name; the slice has two elements, and the first is the decoded
  first row. (The second element is shown as the decoder leaves it when it has set the ID
  before it meets the name; in the other order its ID is empty as well.)
\<close>

theorem ListBuildings_decode_failure_returns_slice:
  "fst (ListBuildings brokenRowRegistrar Background [])
     = (Some [Some 0, Some 1], Some (WithStack (UnmarshalTypeError ''bool''))) \<and>
   snd (snd (ListBuildings brokenRowRegistrar Background []))
     = [\<lparr>ID = ''A'', Name = ''Tower''\<rparr>, \<lparr>ID = ''B'', Name = []\<rparr>]"
  by (simp add: ListBuildings_def ScanWithContext_def send_def brokenRowRegistrar_def
      UnmarshalListOfMaps_def make_def Int64Value_def new_def UnmarshalMap_def
      decodeStruct_def zeroBuilding_def buildingIDAttributeName_def
      buildingNameAttributeName_def)

text \<open>
  Claim C9. \<^verbatim>\<open>RegisterBuilding\<close> writes to no building that was allocated before
  the call, the caller's input among them; when it returns a building, that is a
  different object with the input's name, equal to the input in every field but the ID.
\<close>

theorem RegisterBuilding_input_unchanged:
  assumes "a < length h"
    and "RegisterBuilding dr ctx ulid (Some a) h = ((building, err), dr', h')"
  shows "h' ! a = h ! a \<and> take (length h) h' = h \<and>
         (\<forall>p. building = Some p \<longrightarrow>
            p \<noteq> a \<and> Name (h' ! p) = Name (h ! a) \<and> h' ! p = (h ! a)\<lparr>ID := ID (h' ! p)\<rparr>)"
  using assms
  by (auto simp add: RegisterBuilding_def new_def nth_append Let_def
      split: if_splits prod.splits option.splits sum.splits)

theorem RegisterBuilding_input_unchanged_witness:
  "snd (snd (RegisterBuilding exampleRegistrar Background 5 (Some 0) exampleHeap)) ! 0
     = \<lparr>ID = ''something'', Name = ''Tower''\<rparr> \<and>
   take 1 (snd (snd (RegisterBuilding exampleRegistrar Background 5 (Some 0) exampleHeap)))
     = exampleHeap \<and>
   fst (fst (RegisterBuilding exampleRegistrar Background 5 (Some 0) exampleHeap)) = Some 1 \<and>
   Name (snd (snd (RegisterBuilding exampleRegistrar Background 5 (Some 0) exampleHeap)) ! 1)
     = ''Tower''"
proof -
  obtain dr' h' where
    ev: "RegisterBuilding exampleRegistrar Background 5 (Some 0) exampleHeap
           = ((Some 1, None), dr', h')"
    using RegisterBuilding_success [of 0 exampleHeap exampleRegistrar exampleTable 5]
    by (simp add: exampleRegistrar_def exampleHeap_def exampleTable_def
        buildingIDAttributeName_def)
  have "0 < length exampleHeap"
    by (simp add: exampleHeap_def)
  from RegisterBuilding_input_unchanged [OF this ev] show ?thesis
    unfolding ev by (auto simp add: exampleHeap_def)
qed

end
